theory Spec2Isabelle
  imports
    Complex_Main
    "HOL-Library.Char_ord"
    "HOL-Library.List_Lexorder"
    "HOL-Library.Product_Lexorder"
begin

section \<open>Growth Funnel Lab: the dashboard script \<^verbatim>\<open>app.py\<close>\<close>

text \<open>
  The script is one straight-line pipeline that the hosting shell re-runs on every
  interaction: load a CSV, normalise and validate its header, filter by date range and
  channel, aggregate, and write three insight lines. The embedding follows the script
  top to bottom and keeps its names.

  Conventions of the embedding.
  \<^item> A data frame is its list of column names together with its rows; a row carries
    the nine required columns, which the script reads only after the validation.
  \<^item> A date is a day number, the funnel columns are integers, \<^verbatim>\<open>spend\<close> and
    \<^verbatim>\<open>revenue\<close> are exact rationals. IEEE doubles are idealised as rationals
    extended with the three special values that pandas arithmetic produces
    (\<open>inf\<close>, \<open>-inf\<close>, \<open>NaN\<close>); rounding is round-half-to-even on the exact value.
  \<^item> What the script renders is a list of screen elements in the order the calls are
    made, paired with how the run ended (\<^verbatim>\<open>st.stop()\<close>, an exception, or the end
    of the script). Page chrome (title, captions, sub-headers, dividers) is left out.
\<close>

subsection \<open>Data model\<close>

record row =
  date :: int
  channel :: string
  visits :: int
  signup :: int
  add_to_cart :: int
  checkout :: int
  purchase :: int
  spend :: rat
  revenue :: rat

type_synonym dataset = "row list"

record frame =
  columns :: "string list"
  rows :: dataset

datatype py_error = IndexError

text \<open>A float cell of a pandas column.\<close>

datatype fval = Num rat | PInf | NInf | NaN

subsection \<open>Loading (lines 19--25)\<close>

text \<open>
  \<^verbatim>\<open>uploaded\<close> is the file-uploader widget (\<open>None\<close> when nothing was uploaded),
  \<^verbatim>\<open>use_sample\<close> the button, \<open>sample\<close> the bundled \<^verbatim>\<open>sample_data.csv\<close>, which is
  not part of the script and is a parameter here. The result \<open>None\<close> is the branch
  that shows the hint and stops.
\<close>

definition load :: "frame option \<Rightarrow> bool \<Rightarrow> frame \<Rightarrow> frame option" where
  "load uploaded use_sample sample =
     (case uploaded of
        Some f \<Rightarrow> Some f
      | None \<Rightarrow> if use_sample then Some sample else None)"

subsection \<open>Header normalisation and validation (lines 27--33)\<close>

text \<open>\<^verbatim>\<open>c.lower().strip()\<close> on header names, taken as ASCII text.\<close>

definition lower_char :: "char \<Rightarrow> char" where
  "lower_char c =
     (if CHR ''A'' \<le> c \<and> c \<le> CHR ''Z'' then char_of (of_char c + (32::nat)) else c)"

definition is_space :: "char \<Rightarrow> bool" where
  "is_space c \<longleftrightarrow>
     c = CHR '' '' \<or> (9::nat) \<le> of_char c \<and> of_char c \<le> (13::nat)
       \<or> (28::nat) \<le> of_char c \<and> of_char c \<le> (31::nat)"

definition str_lower :: "string \<Rightarrow> string" where
  "str_lower s = map lower_char s"

definition str_strip :: "string \<Rightarrow> string" where
  "str_strip s = rev (dropWhile is_space (rev (dropWhile is_space s)))"

definition normalise_columns :: "frame \<Rightarrow> frame" where
  "normalise_columns f = f\<lparr>columns := map (\<lambda>c. str_strip (str_lower c)) (columns f)\<rparr>"

definition required :: "string set" where
  "required = {''date'', ''channel'', ''visits'', ''signup'', ''add_to_cart'',
               ''checkout'', ''purchase'', ''spend'', ''revenue''}"

definition missing :: "frame \<Rightarrow> string set" where
  "missing f = required - set (columns f)"

subsection \<open>Filters (lines 38--48)\<close>

text \<open>
  The two date pickers return \<open>start_d\<close> and \<open>end_d\<close>; their defaults are the least
  and greatest date of the validated frame.
\<close>

definition default_range :: "dataset \<Rightarrow> (int \<times> int) option" where
  "default_range df =
     (case map date df of
        [] \<Rightarrow> None
      | d # ds \<Rightarrow> Some (fold min ds d, fold max ds d))"

definition date_mask :: "int \<Rightarrow> int \<Rightarrow> dataset \<Rightarrow> dataset" where
  "date_mask start_d end_d df = filter (\<lambda>r. start_d \<le> date r \<and> date r \<le> end_d) df"

text \<open>\<^verbatim>\<open>sorted(df["channel"].unique())\<close>, both the options and the default of the multiselect.\<close>

definition channel_options :: "dataset \<Rightarrow> string list" where
  "channel_options df = sort (remdups (map channel df))"

text \<open>The multiselect returns what the user picked, or its default when untouched.\<close>

definition multiselect :: "string list \<Rightarrow> string list \<Rightarrow> string list option \<Rightarrow> string list" where
  "multiselect opts dflt picked = (case picked of None \<Rightarrow> dflt | Some cs \<Rightarrow> cs)"

definition isin_channels :: "string list \<Rightarrow> dataset \<Rightarrow> dataset" where
  "isin_channels channels df = filter (\<lambda>r. channel r \<in> set channels) df"

text \<open>Lines 44--48 for a given range and channel selection.\<close>

definition filterer :: "int \<Rightarrow> int \<Rightarrow> string list \<Rightarrow> dataset \<Rightarrow> dataset" where
  "filterer start_d end_d channels df = isin_channels channels (date_mask start_d end_d df)"

text \<open>
  The same two statements over a store of frame objects: \<^verbatim>\<open>df[mask]\<close>,
  \<^verbatim>\<open>.copy()\<close> and \<^verbatim>\<open>df[...isin(...)]\<close> each build a new frame, and the name
  \<^verbatim>\<open>df\<close> is rebound to it.
\<close>

record store =
  frames :: "nat \<Rightarrow> dataset option"
  fresh :: nat

definition alloc :: "dataset \<Rightarrow> store \<Rightarrow> nat \<times> store" where
  "alloc d st = (fresh st, st\<lparr>frames := (frames st)(fresh st \<mapsto> d), fresh := Suc (fresh st)\<rparr>)"

definition filter_in_store ::
    "int \<Rightarrow> int \<Rightarrow> string list \<Rightarrow> nat \<Rightarrow> store \<Rightarrow> (nat \<times> store) option" where
  "filter_in_store start_d end_d channels df st =
     (case frames st df of
        None \<Rightarrow> None
      | Some d \<Rightarrow>
          let d1 = date_mask start_d end_d d;
              (a1, st1) = alloc d1 st;
              (a2, st2) = alloc d1 st1;
              d3 = isin_channels channels d1
          in Some (alloc d3 st2))"

subsection \<open>Float arithmetic of the derived columns\<close>

text \<open>Series division: a zero divisor gives a signed infinity, \<open>0 / 0\<close> gives \<open>NaN\<close>.\<close>

definition fdiv :: "rat \<Rightarrow> rat \<Rightarrow> fval" where
  "fdiv a b =
     (if b \<noteq> 0 then Num (a / b)
      else if 0 < a then PInf
      else if a < 0 then NInf
      else NaN)"

definition round_half_even :: "rat \<Rightarrow> int" where
  "round_half_even x =
     (let f = \<lfloor>x\<rfloor>; r = x - of_int f
      in if r < 1 / 2 then f
         else if 1 / 2 < r then f + 1
         else if even f then f else f + 1)"

definition round_dec :: "nat \<Rightarrow> rat \<Rightarrow> rat" where
  "round_dec d x = of_int (round_half_even (x * 10 ^ d)) / 10 ^ d"

fun fround :: "nat \<Rightarrow> fval \<Rightarrow> fval" where
  "fround d (Num x) = Num (round_dec d x)"
| "fround d v = v"


text \<open>The position of a float among the sort keys.\<close>

fun fkey :: "fval \<Rightarrow> int \<times> rat" where
  "fkey NInf = (-1, 0)"
| "fkey (Num x) = (0, x)"
| "fkey PInf = (1, 0)"
| "fkey NaN = (2, 0)"

text \<open>
  \<^verbatim>\<open>sort_values(col, ascending=...)\<close>: pandas sorts the non-\<open>NaN\<close> cells and puts the
  \<open>NaN\<close> rows last; for a descending sort it reverses the input, sorts ascending and
  reverses the result. The underlying sort is numpy's default kind, whose small-array
  path is an insertion sort; the model uses the library's insertion sort
  (\<^const>\<open>sort_key\<close>) at every length.
\<close>

definition sort_values :: "('a \<Rightarrow> fval) \<Rightarrow> bool \<Rightarrow> 'a list \<Rightarrow> 'a list" where
  "sort_values col ascending xs =
     (let non_nans = filter (\<lambda>x. col x \<noteq> NaN) xs;
          nans = filter (\<lambda>x. col x = NaN) xs
      in (if ascending then sort_key (\<lambda>x. fkey (col x)) non_nans
          else rev (sort_key (\<lambda>x. fkey (col x)) (rev non_nans))) @ nans)"

definition head1 :: "'a list \<Rightarrow> 'a list" where
  "head1 xs = take 1 xs"

definition iloc0 :: "'a list \<Rightarrow> py_error + 'a" where
  "iloc0 xs = (case xs of [] \<Rightarrow> Inl IndexError | x # _ \<Rightarrow> Inr x)"

subsection \<open>KPIs (lines 51--64)\<close>

definition col_sum :: "(row \<Rightarrow> 'n::monoid_add) \<Rightarrow> dataset \<Rightarrow> 'n" where
  "col_sum col df = sum_list (map col df)"

record kpis =
  k_spend :: rat
  k_revenue :: rat
  k_purchases :: int
  k_visits :: int
  k_roas :: rat
  k_cac :: rat
  k_cvr :: rat

definition kpi_set :: "dataset \<Rightarrow> kpis" where
  "kpi_set df =
     (let sp = col_sum spend df;
          rv = col_sum revenue df;
          pu = col_sum purchase df;
          vi = col_sum visits df
      in \<lparr>k_spend = sp, k_revenue = rv, k_purchases = pu, k_visits = vi,
          k_roas = (if sp \<noteq> 0 then rv / sp else 0),
          k_cac = (if pu \<noteq> 0 then sp / of_int pu else 0),
          k_cvr = (if vi \<noteq> 0 then of_int pu / of_int vi else 0)\<rparr>)"

subsection \<open>Funnel and drop-off table (lines 70--81)\<close>

record funnel_row =
  stage :: string
  count :: int
  nxt :: "int option"
  dropoff :: fval

definition stages :: "string list" where
  "stages = [''Visits'', ''Signup'', ''Add to Cart'', ''Checkout'', ''Purchase'']"

definition funnel_counts :: "dataset \<Rightarrow> int list" where
  "funnel_counts df =
     [col_sum visits df, col_sum signup df, col_sum add_to_cart df,
      col_sum checkout df, col_sum purchase df]"

text \<open>\<^verbatim>\<open>shift(-1)\<close>: every cell takes the value below it, the last one is \<open>NaN\<close> (\<open>None\<close>).\<close>

definition shift_m1 :: "int list \<Rightarrow> int option list" where
  "shift_m1 cs = (case cs of [] \<Rightarrow> [] | _ # t \<Rightarrow> map Some t @ [None])"

definition dropoff_pct :: "int \<Rightarrow> int option \<Rightarrow> fval" where
  "dropoff_pct c n =
     (case n of
        None \<Rightarrow> NaN
      | Some m \<Rightarrow> fround 4 (fdiv (of_int c - of_int m) (of_int c)))"

definition funnel_of_counts :: "int list \<Rightarrow> funnel_row list" where
  "funnel_of_counts cs =
     map (\<lambda>(s, c, n). \<lparr>stage = s, count = c, nxt = n, dropoff = dropoff_pct c n\<rparr>)
       (zip stages (zip cs (shift_m1 cs)))"

definition funnel :: "dataset \<Rightarrow> funnel_row list" where
  "funnel df = funnel_of_counts (funnel_counts df)"

text \<open>\<^verbatim>\<open>funnel.dropna()\<close>: the float columns of the table are \<open>next\<close> and \<open>dropoff_%\<close>.\<close>

definition dropna :: "funnel_row list \<Rightarrow> funnel_row list" where
  "dropna fs = filter (\<lambda>r. nxt r \<noteq> None \<and> dropoff r \<noteq> NaN) fs"

subsection \<open>Trend (lines 85--87)\<close>

record trend_row =
  t_date :: int
  t_spend :: rat
  t_revenue :: rat
  t_purchase :: int

definition trend :: "dataset \<Rightarrow> trend_row list" where
  "trend df =
     map (\<lambda>d. let g = filter (\<lambda>r. date r = d) df
              in \<lparr>t_date = d, t_spend = col_sum spend g, t_revenue = col_sum revenue g,
                  t_purchase = col_sum purchase g\<rparr>)
       (sort (remdups (map date df)))"

subsection \<open>Channel performance (lines 91--101)\<close>

text \<open>
  \<open>roas\<close> is a float column. In \<open>cac\<close> and \<open>cvr\<close> a zero divisor is first replaced by
  \<^verbatim>\<open>pd.NA\<close>, so a cell is either missing (\<open>None\<close>) or a finite quotient.
\<close>

record channel_row =
  ch_channel :: string
  ch_spend :: rat
  ch_revenue :: rat
  ch_purchase :: int
  ch_visits :: int
  roas :: fval
  cac :: "rat option"
  cvr :: "rat option"

definition channel_group :: "dataset \<Rightarrow> string \<Rightarrow> channel_row" where
  "channel_group df c =
     (let g = filter (\<lambda>r. channel r = c) df;
          sp = col_sum spend g;
          rv = col_sum revenue g;
          pu = col_sum purchase g;
          vi = col_sum visits g
      in \<lparr>ch_channel = c, ch_spend = sp, ch_revenue = rv, ch_purchase = pu, ch_visits = vi,
          roas = fround 2 (fdiv rv sp),
          cac = (if pu = 0 then None else Some (round_dec 2 (sp / of_int pu))),
          cvr = (if vi = 0 then None else Some (round_dec 4 (of_int pu / of_int vi)))\<rparr>)"

definition by_ch :: "dataset \<Rightarrow> channel_row list" where
  "by_ch df = map (channel_group df) (sort (remdups (map channel df)))"

subsection \<open>Insights and the whole run (lines 105--114)\<close>

datatype element =
    Info_no_data
  | Error_missing "string list"
  | Metrics kpis
  | Funnel_chart "(string \<times> int) list"
  | Dropoff_table "funnel_row list"
  | Trend_chart "trend_row list"
  | Channel_table "channel_row list"
  | Best_line string fval
  | Worst_line string fval
  | Drop_line string fval
  | Recommendation

datatype outcome = Finished | Stopped | Raised py_error

text \<open>
  Each \<^verbatim>\<open>st.write\<close> evaluates its f-string first; \<^verbatim>\<open>.iloc[0]\<close> on an empty
  selection raises, and the lines written before stay on the screen.
\<close>

definition insights :: "channel_row list \<Rightarrow> funnel_row list \<Rightarrow> element list \<times> outcome" where
  "insights chs fs =
     (let best = head1 (sort_values roas False chs);
          worst = head1 (sort_values roas True chs);
          drop = head1 (sort_values dropoff False (dropna fs))
      in case iloc0 best of
           Inl e \<Rightarrow> ([], Raised e)
         | Inr b \<Rightarrow>
            (case iloc0 worst of
               Inl e \<Rightarrow> ([Best_line (ch_channel b) (roas b)], Raised e)
             | Inr w \<Rightarrow>
                (case iloc0 drop of
                   Inl e \<Rightarrow>
                     ([Best_line (ch_channel b) (roas b),
                       Worst_line (ch_channel w) (roas w)], Raised e)
                 | Inr d \<Rightarrow>
                     ([Best_line (ch_channel b) (roas b),
                       Worst_line (ch_channel w) (roas w),
                       Drop_line (stage d) (dropoff d),
                       Recommendation], Finished))))"

definition dashboard :: "dataset \<Rightarrow> element list \<times> outcome" where
  "dashboard df =
     (let fs = funnel df;
          chs = by_ch df;
          (lines, out) = insights chs fs
      in ([Metrics (kpi_set df),
           Funnel_chart (map (\<lambda>r. (stage r, count r)) fs),
           Dropoff_table fs,
           Trend_chart (trend df),
           Channel_table (sort_values roas False chs)] @ lines, out))"

definition run ::
    "frame option \<Rightarrow> bool \<Rightarrow> frame \<Rightarrow> int \<Rightarrow> int \<Rightarrow> string list option
       \<Rightarrow> element list \<times> outcome" where
  "run uploaded use_sample sample start_d end_d picked =
     (case load uploaded use_sample sample of
        None \<Rightarrow> ([Info_no_data], Stopped)
      | Some f0 \<Rightarrow>
          let f = normalise_columns f0
          in if missing f \<noteq> {} then ([Error_missing (sorted_list_of_set (missing f))], Stopped)
             else
               let df1 = date_mask start_d end_d (rows f);
                   opts = channel_options df1;
                   channels = multiselect opts opts picked
               in dashboard (isin_channels channels df1))"

subsection \<open>Example inputs\<close>

definition full_header :: "string list" where
  "full_header = [''date'', ''channel'', ''visits'', ''signup'', ''add_to_cart'',
                  ''checkout'', ''purchase'', ''spend'', ''revenue'']"


definition ex_a :: row where
  "ex_a = \<lparr>date = 1, channel = ''A'', visits = 100, signup = 50, add_to_cart = 30,
           checkout = 20, purchase = 10, spend = 100, revenue = 300\<rparr>"

definition ex_b :: row where
  "ex_b = \<lparr>date = 2, channel = ''B'', visits = 100, signup = 50, add_to_cart = 30,
           checkout = 20, purchase = 10, spend = 200, revenue = 300\<rparr>"


definition ex_organic :: row where
  "ex_organic = \<lparr>date = 1, channel = ''Organic'', visits = 100, signup = 50, add_to_cart = 30,
                 checkout = 20, purchase = 10, spend = 0, revenue = 300\<rparr>"


definition ex_display :: row where
  "ex_display = \<lparr>date = 1, channel = ''Display'', visits = 0, signup = 0, add_to_cart = 0,
                 checkout = 0, purchase = 0, spend = 50, revenue = 0\<rparr>"

definition ex_frame :: frame where
  "ex_frame = \<lparr>columns = full_header, rows = [ex_a, ex_b]\<rparr>"


definition ex_store :: store where
  "ex_store = \<lparr>frames = [0 \<mapsto> [ex_a, ex_b]], fresh = 1\<rparr>"

section \<open>Auxiliary facts\<close>

subsection \<open>Validation\<close>



subsection \<open>Sums over the groups of a key\<close>





subsection \<open>Filtering\<close>

lemma filterer_idem: "filterer s e cs (filterer s e cs df) = filterer s e cs df"
  by (auto simp: filterer_def isin_channels_def date_mask_def intro: filter_cong)

lemma default_range_covers:
  assumes "default_range df = Some (s, e)"
  shows "date_mask s e df = df"
proof (cases df)
  case Nil
  then show ?thesis by (simp add: date_mask_def)
next
  case (Cons r rs)
  with assms have "s = fold min (map date rs) (date r)" and "e = fold max (map date rs) (date r)"
    by (auto simp: default_range_def)
  then have s: "s = Min (set (map date df))" and e: "e = Max (set (map date df))"
    unfolding Cons list.map by (simp_all only: Min.set_eq_fold Max.set_eq_fold)
  have "\<forall>x\<in>set df. s \<le> date x \<and> date x \<le> e"
    unfolding s e by (auto intro!: Min_le Max_ge)
  then show ?thesis by (simp add: date_mask_def)
qed

lemma missing_ex_frame: "missing (normalise_columns ex_frame) = {}"
  by (simp add: missing_def normalise_columns_def ex_frame_def full_header_def required_def
      str_strip_def str_lower_def lower_char_def is_space_def)

subsection \<open>The head of a sorted table\<close>


lemma fkey_inj: "fkey a = fkey b \<Longrightarrow> a = b"
  by (cases a; cases b) simp_all









subsection \<open>The rows of the funnel table\<close>








subsection \<open>The tables of the example inputs\<close>




section \<open>The claims\<close>

text \<open>
  C10. When a file has been uploaded it is the one that is loaded, whatever the state of
  the sample button and whatever the bundled sample holds; the sample is loaded only when
  nothing was uploaded and the button was pressed; with neither, the run stops for lack
  of data.
\<close>

theorem uploaded_file_takes_precedence:
  "load (Some f) use_sample sample = Some f
   \<and> load None True sample = Some sample
   \<and> load None False sample = None
   \<and> run (Some f) use_sample sample start_d end_d picked
       = run (Some f) use_sample' sample' start_d end_d picked"
  by (simp add: load_def run_def)




text \<open>
  C9. Filtering with a given range and channel selection is idempotent. Over the store of
  frame objects, the two filter statements leave the frame they start from as it was,
  together with every other frame that existed, and deliver the filtered rows in a frame
  of their own.
\<close>

theorem filtering_idempotent_and_pure:
  "filterer start_d end_d channels (filterer start_d end_d channels d)
     = filterer start_d end_d channels d
   \<and> (frames st df = Some d \<and> df < fresh st \<longrightarrow>
        (\<exists>df' st'. filter_in_store start_d end_d channels df st = Some (df', st')
           \<and> frames st' df' = Some (filterer start_d end_d channels d)
           \<and> df' \<noteq> df
           \<and> frames st' df = Some d
           \<and> (\<forall>a<fresh st. frames st' a = frames st a)))"
proof -
  have "frames st df = Some d \<and> df < fresh st \<longrightarrow>
        (\<exists>df' st'. filter_in_store start_d end_d channels df st = Some (df', st')
           \<and> frames st' df' = Some (filterer start_d end_d channels d)
           \<and> df' \<noteq> df
           \<and> frames st' df = Some d
           \<and> (\<forall>a<fresh st. frames st' a = frames st a))"
    by (auto simp: filter_in_store_def alloc_def Let_def filterer_def)
  then show ?thesis
    by (simp only: filterer_idem simp_thms)
qed

theorem filtering_idempotent_and_pure_witness:
  "frames ex_store 0 = Some [ex_a, ex_b] \<and> 0 < fresh ex_store
   \<and> (\<exists>df' st'. filter_in_store 1 1 [''A''] 0 ex_store = Some (df', st')
         \<and> frames st' df' = Some [ex_a]
         \<and> df' \<noteq> 0
         \<and> frames st' 0 = Some [ex_a, ex_b])"
proof -
  have h: "frames ex_store 0 = Some [ex_a, ex_b] \<and> 0 < fresh ex_store"
    by (simp add: ex_store_def)
  have f: "filterer 1 1 [''A''] [ex_a, ex_b] = [ex_a]"
    by (simp add: filterer_def isin_channels_def date_mask_def ex_a_def ex_b_def)
  from filtering_idempotent_and_pure [of 1 1 "[''A'']" "[ex_a, ex_b]" ex_store 0] h
  show ?thesis unfolding f by blast
qed

text \<open>
  C4, as stated: the default channel selection is the sorted list of all distinct
  channels of the full dataset. It fails for two rows, channel A on day 1 and channel B on
  day 2, with the range narrowed to day 1: the multiselect is built after the date mask
  and offers A alone.
\<close>

theorem default_channels_counterexample:
  "multiselect (channel_options (date_mask 1 1 [ex_a, ex_b]))
      (channel_options (date_mask 1 1 [ex_a, ex_b])) None
     \<noteq> sort (remdups (map channel [ex_a, ex_b]))"
  by (simp add: multiselect_def channel_options_def date_mask_def ex_a_def ex_b_def)

text \<open>
  C4, amended: the default channel selection is the sorted list of the distinct channels
  of the rows inside the chosen date range; it is the list for the full dataset when the
  range is the default one, from the least to the greatest date.
\<close>

theorem default_channels_of_date_filtered:
  "multiselect (channel_options (date_mask start_d end_d df))
      (channel_options (date_mask start_d end_d df)) None
     = sort (remdups (map channel (date_mask start_d end_d df)))
   \<and> set (channel_options (date_mask start_d end_d df))
       = channel ` {r \<in> set df. start_d \<le> date r \<and> date r \<le> end_d}
   \<and> sorted (channel_options (date_mask start_d end_d df))
   \<and> distinct (channel_options (date_mask start_d end_d df))
   \<and> (default_range df = Some (start_d, end_d) \<longrightarrow>
        channel_options (date_mask start_d end_d df) = sort (remdups (map channel df)))"
  by (auto simp: multiselect_def channel_options_def default_range_covers)
     (auto simp: date_mask_def)

theorem default_channels_of_date_filtered_witness:
  "default_range [ex_a, ex_b] = Some (1, 2)
   \<and> channel_options (date_mask 1 2 [ex_a, ex_b]) = [''A'', ''B'']"
proof -
  have d: "default_range [ex_a, ex_b] = Some (1, 2)"
    by (simp add: default_range_def ex_a_def ex_b_def)
  have c: "sort (remdups (map channel [ex_a, ex_b])) = [''A'', ''B'']"
    by (simp add: ex_a_def ex_b_def)
  from default_channels_of_date_filtered [of 1 2 "[ex_a, ex_b]"] d
  have "channel_options (date_mask 1 2 [ex_a, ex_b]) = sort (remdups (map channel [ex_a, ex_b]))"
    by blast
  with d c show ?thesis by (simp only: simp_thms)
qed

text \<open>
  C1, on the code: with every channel deselected the filtered frame has no rows. The
  KPIs, the funnel, the trend and the channel table are rendered (all zero or empty);
  then the first insight line reads \<^verbatim>\<open>.iloc[0]\<close> of an empty selection and the run
  ends in an \<open>IndexError\<close> with no insight line written.
\<close>

theorem empty_selection_raises:
  "run (Some ex_frame) False ex_frame 1 2 (Some [])
     = ([Metrics \<lparr>k_spend = 0, k_revenue = 0, k_purchases = 0, k_visits = 0,
                  k_roas = 0, k_cac = 0, k_cvr = 0\<rparr>,
         Funnel_chart [(''Visits'', 0), (''Signup'', 0), (''Add to Cart'', 0),
                       (''Checkout'', 0), (''Purchase'', 0)],
         Dropoff_table
           [\<lparr>stage = ''Visits'', count = 0, nxt = Some 0, dropoff = NaN\<rparr>,
            \<lparr>stage = ''Signup'', count = 0, nxt = Some 0, dropoff = NaN\<rparr>,
            \<lparr>stage = ''Add to Cart'', count = 0, nxt = Some 0, dropoff = NaN\<rparr>,
            \<lparr>stage = ''Checkout'', count = 0, nxt = Some 0, dropoff = NaN\<rparr>,
            \<lparr>stage = ''Purchase'', count = 0, nxt = None, dropoff = NaN\<rparr>],
         Trend_chart [],
         Channel_table []],
        Raised IndexError)"
  by (simp add: run_def load_def missing_ex_frame Let_def channel_options_def multiselect_def
      isin_channels_def dashboard_def insights_def by_ch_def funnel_def funnel_of_counts_def
      funnel_counts_def col_sum_def shift_m1_def stages_def dropoff_pct_def fdiv_def
      sort_values_def dropna_def head1_def iloc0_def kpi_set_def trend_def)

text \<open>
  C2, on the code: a channel with no spend and some revenue gets \<open>roas = inf\<close>, a value
  that is displayed and sorted like any other, while \<open>cac\<close> and \<open>cvr\<close> of a channel
  with no purchases and no visits are missing.
\<close>

theorem zero_spend_roas_is_infinite:
  "map (\<lambda>r. (ch_channel r, roas r, cac r, cvr r)) (by_ch [ex_organic, ex_display])
     = [(''Display'', Num 0, None, None), (''Organic'', PInf, Some 0, Some (1 / 10))]"
  by (simp add: by_ch_def channel_group_def col_sum_def Let_def ex_organic_def ex_display_def
      fdiv_def round_dec_def round_half_even_def)









end
